theory Spec2Isabelle
  imports Complex_Main
begin

section \<open>Tag vectors (gini\_account\_model.py, gini\_utxo\_model.py)\<close>

text \<open>
  A tag vector is a Python \<open>Dict[int, int]\<close> from cluster id to weight. It is modelled as
  an association list in insertion order; a Python dict never holds a key twice, which is
  the property \<open>distinct (map fst tags)\<close>. Python's unbounded \<open>int\<close> is \<open>int\<close>, and
  \<open>//\<close> (floor division) is \<open>div\<close>.
\<close>

type_synonym tags = "(int \<times> int) list"

definition TAG_SCALE :: int where
  "TAG_SCALE = 1000000"

text \<open>\<open>TAG_PRUNE_THRESHOLD\<close> of gini\_account\_model.py.\<close>

definition TAG_PRUNE_THRESHOLD :: int where
  "TAG_PRUNE_THRESHOLD = 100"

text \<open>\<open>TAG_PRUNE_THRESHOLD\<close> of gini\_utxo\_model.py.\<close>

definition UTXO_TAG_PRUNE_THRESHOLD :: int where
  "UTXO_TAG_PRUNE_THRESHOLD = 1000"

text \<open>\<open>tags.get(cluster, 0)\<close>.\<close>

definition tag_get :: "tags \<Rightarrow> int \<Rightarrow> int" where
  "tag_get tgs cluster = (case map_of tgs cluster of None \<Rightarrow> 0 | Some w \<Rightarrow> w)"

text \<open>\<open>sum(tags.values())\<close>: the explicit weight of a vector.\<close>

definition tag_total :: "tags \<Rightarrow> int" where
  "tag_total tgs = sum_list (map snd tgs)"

text \<open>
  \<open>apply_decay\<close> of gini\_account\_model.py: the loop over \<open>tags.items()\<close> keeps the
  entries whose decayed weight reaches the threshold, in the order of the input.
\<close>

fun apply_decay :: "tags \<Rightarrow> int \<Rightarrow> tags" where
  "apply_decay [] decay_rate = []"
| "apply_decay ((cluster_id, weight) # rest) decay_rate =
     (let decay_amount = weight * decay_rate div TAG_SCALE;
          new_weight = weight - decay_amount
      in if new_weight \<ge> TAG_PRUNE_THRESHOLD
         then (cluster_id, new_weight) # apply_decay rest decay_rate
         else apply_decay rest decay_rate)"

text \<open>\<open>apply_decay\<close> of gini\_utxo\_model.py: the same loop with that file's threshold.\<close>

fun utxo_apply_decay :: "tags \<Rightarrow> int \<Rightarrow> tags" where
  "utxo_apply_decay [] decay_rate = []"
| "utxo_apply_decay ((cluster_id, weight) # rest) decay_rate =
     (let decayed = weight - (weight * decay_rate div TAG_SCALE)
      in if decayed \<ge> UTXO_TAG_PRUNE_THRESHOLD
         then (cluster_id, decayed) # utxo_apply_decay rest decay_rate
         else utxo_apply_decay rest decay_rate)"

text \<open>
  \<open>mix_tags\<close> of gini\_account\_model.py. \<open>all_clusters\<close> is a Python set, whose iteration
  order is not fixed by the language; the model visits the keys of \<open>self_tags\<close> and then the
  new keys of \<open>incoming_tags\<close>. Python compares dicts without regard to order, so results
  are compared through \<open>map_of\<close>.
\<close>

definition mix_weight :: "tags \<Rightarrow> int \<Rightarrow> tags \<Rightarrow> int \<Rightarrow> int \<Rightarrow> int" where
  "mix_weight self_tags self_value incoming_tags incoming_value cluster =
     (self_value * tag_get self_tags cluster + incoming_value * tag_get incoming_tags cluster)
       div (self_value + incoming_value)"

fun mix_loop :: "tags \<Rightarrow> int \<Rightarrow> tags \<Rightarrow> int \<Rightarrow> int list \<Rightarrow> tags" where
  "mix_loop self_tags self_value incoming_tags incoming_value [] = []"
| "mix_loop self_tags self_value incoming_tags incoming_value (cluster # rest) =
     (let new_weight = mix_weight self_tags self_value incoming_tags incoming_value cluster
      in if new_weight \<ge> TAG_PRUNE_THRESHOLD
         then (cluster, new_weight) # mix_loop self_tags self_value incoming_tags incoming_value rest
         else mix_loop self_tags self_value incoming_tags incoming_value rest)"

definition mix_tags :: "tags \<Rightarrow> int \<Rightarrow> tags \<Rightarrow> int \<Rightarrow> tags" where
  "mix_tags self_tags self_value incoming_tags incoming_value =
     (let total_value = self_value + incoming_value
      in if total_value = 0 then []
         else let all_clusters = remdups (map fst self_tags @ map fst incoming_tags)
              in mix_loop self_tags self_value incoming_tags incoming_value all_clusters)"

text \<open>The vector with the entries below the account model's threshold dropped.\<close>

definition prune :: "tags \<Rightarrow> tags" where
  "prune tgs = filter (\<lambda>(c, w). w \<ge> TAG_PRUNE_THRESHOLD) tgs"

section \<open>The cluster ledger (class ClusterWealth, gini\_account\_model.py)\<close>

text \<open>
  \<open>self.wealth\<close> is a dict from cluster id to wealth, a partial map here; the three methods
  are total in Python (no lookup without a default, unbounded integers), so they have no
  error branch.
\<close>

record ClusterWealth =
  wealth :: "int \<rightharpoonup> int"
  next_cluster :: int

definition ClusterWealth_init :: ClusterWealth where
  "ClusterWealth_init = \<lparr>wealth = Map.empty, next_cluster = 0\<rparr>"

definition new_cluster :: "ClusterWealth \<Rightarrow> int \<times> ClusterWealth" where
  "new_cluster cw =
     (let cid = next_cluster cw
      in (cid, cw\<lparr>next_cluster := next_cluster cw + 1, wealth := (wealth cw)(cid \<mapsto> 0)\<rparr>))"

definition apply_delta :: "ClusterWealth \<Rightarrow> int \<Rightarrow> int \<Rightarrow> ClusterWealth" where
  "apply_delta cw cluster_id delta =
     (let w0 = (if wealth cw cluster_id = None then (wealth cw)(cluster_id \<mapsto> 0) else wealth cw);
          cur = (case w0 cluster_id of None \<Rightarrow> 0 | Some w \<Rightarrow> w)
      in cw\<lparr>wealth := w0(cluster_id \<mapsto> max 0 (cur + delta))\<rparr>)"

definition cw_get :: "ClusterWealth \<Rightarrow> int \<Rightarrow> int" where
  "cw_get cw cluster_id = (case wealth cw cluster_id of None \<Rightarrow> 0 | Some w \<Rightarrow> w)"

text \<open>A caller's sequence of ledger operations.\<close>

datatype ledger_op = NewCluster | ApplyDelta int int

fun ledger_step :: "ClusterWealth \<Rightarrow> ledger_op \<Rightarrow> ClusterWealth" where
  "ledger_step cw NewCluster = snd (new_cluster cw)"
| "ledger_step cw (ApplyDelta cluster_id delta) = apply_delta cw cluster_id delta"

definition ledger_run :: "ledger_op list \<Rightarrow> ClusterWealth" where
  "ledger_run ops = foldl ledger_step ClusterWealth_init ops"

text \<open>The ledger invariant: no stored wealth is negative.\<close>

definition ledger_ok :: "ClusterWealth \<Rightarrow> bool" where
  "ledger_ok cw \<longleftrightarrow> (\<forall>c w. wealth cw c = Some w \<longrightarrow> 0 \<le> w)"

section \<open>Blending (gini\_utxo\_model.py)\<close>

text \<open>
  \<open>blend_tags\<close> computes in Python floats. The model computes in exact reals, which is
  what the floats approximate; \<open>int(x)\<close> truncates towards zero. The accumulator
  \<open>blended\<close> is a dict from cluster id to float, in insertion order.
\<close>

type_synonym ftags = "(int \<times> real) list"

definition py_int :: "real \<Rightarrow> int" where
  "py_int x = (if 0 \<le> x then \<lfloor>x\<rfloor> else \<lceil>x\<rceil>)"

text \<open>\<open>if cluster_id not in blended: blended[cluster_id] = 0.0\<close> followed by \<open>+=\<close>.\<close>

fun acc_add :: "ftags \<Rightarrow> int \<Rightarrow> real \<Rightarrow> ftags" where
  "acc_add [] cluster_id x = [(cluster_id, 0 + x)]"
| "acc_add ((k, v) # rest) cluster_id x =
     (if k = cluster_id then (k, v + x) # rest else (k, v) # acc_add rest cluster_id x)"

fun blend_inner :: "ftags \<Rightarrow> real \<Rightarrow> tags \<Rightarrow> ftags" where
  "blend_inner blended weight [] = blended"
| "blend_inner blended weight ((cluster_id, tag_weight) # rest) =
     blend_inner (acc_add blended cluster_id (of_int tag_weight * weight)) weight rest"

fun blend_outer :: "ftags \<Rightarrow> real \<Rightarrow> (real \<times> tags) list \<Rightarrow> ftags" where
  "blend_outer blended total_value [] = blended"
| "blend_outer blended total_value ((value, tgs) # rest) =
     blend_outer (blend_inner blended (value / total_value) tgs) total_value rest"

fun blend_result :: "ftags \<Rightarrow> tags" where
  "blend_result [] = []"
| "blend_result ((cluster_id, weight) # rest) =
     (let int_weight = py_int weight
      in if int_weight \<ge> UTXO_TAG_PRUNE_THRESHOLD
         then (cluster_id, int_weight) # blend_result rest
         else blend_result rest)"

definition blend_tags :: "(real \<times> tags) list \<Rightarrow> tags" where
  "blend_tags inputs =
     (let total_value = sum_list (map fst inputs)
      in if total_value = 0 then []
         else blend_result (blend_outer [] total_value inputs))"

text \<open>
  A well-formed tag vector: a dict (no key twice) of non-negative weights whose sum is at
  most \<open>TAG_SCALE\<close>.
\<close>

definition wf_tags :: "tags \<Rightarrow> bool" where
  "wf_tags tgs \<longleftrightarrow> distinct (map fst tgs) \<and> list_all (\<lambda>(c, w). 0 \<le> w) tgs \<and> tag_total tgs \<le> TAG_SCALE"

text \<open>The sum of the accumulated float weights.\<close>

definition ftotal :: "ftags \<Rightarrow> real" where
  "ftotal b = sum_list (map snd b)"

section \<open>The reference implementation (provenance\_reference.py)\<close>

text \<open>
  Each coin carries one scalar \<open>source_wealth\<close>. The UTXO set is a dict from id to coin, an
  association list in insertion order. \<open>dict.pop\<close> of a missing key raises \<open>KeyError\<close> and
  \<open>//\<close> by zero raises \<open>ZeroDivisionError\<close>; both are results of the model.
\<close>

datatype py_error = KeyError | ZeroDivisionError

record ref_UTXO =
  ref_id :: int
  ref_value :: int
  source_wealth :: int
  ref_owner :: string

record ref_UTXOSet =
  ref_utxos :: "(int \<times> ref_UTXO) list"
  ref_next_id :: int

definition ref_UTXOSet_init :: ref_UTXOSet where
  "ref_UTXOSet_init = \<lparr>ref_utxos = [], ref_next_id = 0\<rparr>"

text \<open>\<open>d[k] = v\<close> and \<open>del d[k]\<close> on a dict kept in insertion order.\<close>

fun dict_set :: "('k \<times> 'v) list \<Rightarrow> 'k \<Rightarrow> 'v \<Rightarrow> ('k \<times> 'v) list" where
  "dict_set [] k v = [(k, v)]"
| "dict_set ((k', v') # rest) k v =
     (if k' = k then (k', v) # rest else (k', v') # dict_set rest k v)"

fun dict_del :: "('k \<times> 'v) list \<Rightarrow> 'k \<Rightarrow> ('k \<times> 'v) list" where
  "dict_del [] k = []"
| "dict_del ((k', v') # rest) k = (if k' = k then rest else (k', v') # dict_del rest k)"

definition mint :: "ref_UTXOSet \<Rightarrow> string \<Rightarrow> int \<Rightarrow> int \<Rightarrow> ref_UTXO \<times> ref_UTXOSet" where
  "mint utxo_set owner val sw =
     (let utxo = \<lparr>ref_id = ref_next_id utxo_set, ref_value = val, source_wealth = sw, ref_owner = owner\<rparr>
      in (utxo, utxo_set\<lparr>ref_next_id := ref_next_id utxo_set + 1,
                          ref_utxos := dict_set (ref_utxos utxo_set) (ref_id utxo) utxo\<rparr>))"

definition spend :: "ref_UTXOSet \<Rightarrow> int \<Rightarrow> py_error + (ref_UTXO \<times> ref_UTXOSet)" where
  "spend utxo_set utxo_id =
     (case map_of (ref_utxos utxo_set) utxo_id of
        None \<Rightarrow> Inl KeyError
      | Some utxo \<Rightarrow> Inr (utxo, utxo_set\<lparr>ref_utxos := dict_del (ref_utxos utxo_set) utxo_id\<rparr>))"

text \<open>
  \<open>compute_fee_rate\<close> works in floats; the model uses exact reals. \<open>linear_fee_rate\<close> of
  gini\_3segment.py has the same body.
\<close>

definition compute_fee_rate :: "real \<Rightarrow> real \<Rightarrow> real \<Rightarrow> real \<Rightarrow> real" where
  "compute_fee_rate sw max_wealth r_min r_max =
     (if max_wealth \<le> 0 then r_min
      else let ratio = min 1 (sw / max_wealth)
           in r_min + (r_max - r_min) * ratio)"

text \<open>
  The three loops of \<open>transfer\<close>: gathering the inputs (a missing id is the first failure
  return), spending them, and minting the outputs.
\<close>

fun gather_inputs :: "ref_UTXOSet \<Rightarrow> int list \<Rightarrow> ref_UTXO list option" where
  "gather_inputs utxo_set [] = Some []"
| "gather_inputs utxo_set (uid # rest) =
     (case map_of (ref_utxos utxo_set) uid of
        None \<Rightarrow> None
      | Some utxo \<Rightarrow> map_option ((#) utxo) (gather_inputs utxo_set rest))"

fun spend_all :: "ref_UTXOSet \<Rightarrow> int list \<Rightarrow> py_error + ref_UTXOSet" where
  "spend_all utxo_set [] = Inr utxo_set"
| "spend_all utxo_set (uid # rest) =
     (case spend utxo_set uid of
        Inl e \<Rightarrow> Inl e
      | Inr (utxo, utxo_set') \<Rightarrow> spend_all utxo_set' rest)"

fun mint_outputs :: "ref_UTXOSet \<Rightarrow> (string \<times> int) list \<Rightarrow> int \<Rightarrow> ref_UTXO list \<times> ref_UTXOSet" where
  "mint_outputs utxo_set [] sw = ([], utxo_set)"
| "mint_outputs utxo_set ((owner, val) # rest) sw =
     (let (utxo, utxo_set') = mint utxo_set owner val sw;
          (new_utxos, utxo_set'') = mint_outputs utxo_set' rest sw
      in (utxo # new_utxos, utxo_set''))"

text \<open>
  \<open>transfer\<close> of provenance\_reference.py. The result is the returned triple together with
  the UTXO set after the call.
\<close>

definition ref_transfer ::
  "ref_UTXOSet \<Rightarrow> int list \<Rightarrow> (string \<times> int) list \<Rightarrow> int
     \<Rightarrow> py_error + (bool \<times> int \<times> ref_UTXO list \<times> ref_UTXOSet)" where
  "ref_transfer utxo_set input_ids outputs max_wealth =
     (case gather_inputs utxo_set input_ids of
        None \<Rightarrow> Inr (False, 0, [], utxo_set)
      | Some inputs \<Rightarrow>
          let total_input_value = sum_list (map ref_value inputs);
              total_output_value = sum_list (map snd outputs)
          in if total_input_value = 0 then Inl ZeroDivisionError
             else
               let blended_source_wealth =
                     sum_list (map (\<lambda>u. ref_value u * source_wealth u) inputs) div total_input_value;
                   fee_rate = compute_fee_rate (of_int blended_source_wealth) (of_int max_wealth)
                                (1 / 100) (15 / 100);
                   fee = py_int (of_int total_output_value * fee_rate)
               in if total_input_value < total_output_value + fee
                  then Inr (False, 0, [], utxo_set)
                  else
                    (case spend_all utxo_set input_ids of
                       Inl e \<Rightarrow> Inl e
                     | Inr utxo_set' \<Rightarrow>
                         let (new_utxos, utxo_set'') = mint_outputs utxo_set' outputs blended_source_wealth
                         in Inr (True, fee, new_utxos, utxo_set'')))"

text \<open>The UTXO sets built by \<open>test_split_resistance\<close> and \<open>test_blend_on_combine\<close>.\<close>

definition whale_set :: ref_UTXOSet where
  "whale_set = snd (mint ref_UTXOSet_init ''whale'' 1000000 1000000)"

definition merchant_set :: ref_UTXOSet where
  "merchant_set = snd (mint (snd (mint ref_UTXOSet_init ''merchant'' 100000 1000000)) ''merchant'' 10000 10000)"

text \<open>The \<open>source_wealth\<close> of the outputs of a successful transfer.\<close>

definition transfer_source_wealths ::
  "py_error + (bool \<times> int \<times> ref_UTXO list \<times> ref_UTXOSet) \<Rightarrow> int list option" where
  "transfer_source_wealths r =
     (case r of
        Inl e \<Rightarrow> None
      | Inr (success, fee, new_utxos, utxo_set) \<Rightarrow>
          if success then Some (map source_wealth new_utxos) else None)"

section \<open>Fee curves\<close>

text \<open>
  \<open>FeeConfig.rate_bps\<close> (the same method in gini\_cluster\_model.py, gini\_account\_model.py and
  gini\_utxo\_model.py) and \<open>three_segment_fee_rate\<close> of gini\_3segment.py. Python floats
  are modelled as reals and \<open>math.exp\<close> as \<open>exp\<close>.
\<close>

record FeeConfig =
  name :: string
  r_min_bps :: real
  r_max_bps :: real
  w_mid :: real
  steepness :: real

definition rate_bps :: "FeeConfig \<Rightarrow> real \<Rightarrow> real" where
  "rate_bps cfg effective_wealth =
     (if r_min_bps cfg = r_max_bps cfg then r_min_bps cfg
      else let x = (effective_wealth - w_mid cfg) / max (steepness cfg) 1;
               sigmoid = (if - 700 < x \<and> x < 700 then 1 / (1 + exp (- x))
                          else (if x < 0 then 0 else 1))
           in r_min_bps cfg + (r_max_bps cfg - r_min_bps cfg) * sigmoid)"

definition three_segment_fee_rate ::
  "real \<Rightarrow> real \<Rightarrow> real \<Rightarrow> real \<Rightarrow> real \<Rightarrow> real \<Rightarrow> real \<Rightarrow> real \<Rightarrow> real" where
  "three_segment_fee_rate effective_wealth max_wealth w1_frac w2_frac r_poor r_mid_start r_mid_end r_rich =
     (if max_wealth \<le> 0 then r_poor
      else let w1 = max_wealth * w1_frac;
               w2 = max_wealth * w2_frac
           in if effective_wealth < w1 then r_poor
              else if effective_wealth < w2 then
                let t = (effective_wealth - w1) / (w2 - w1)
                in r_mid_start + t * (r_mid_end - r_mid_start)
              else r_rich)"

text \<open>A sigmoid configuration with distinct bounds.\<close>

definition sigmoid_cfg :: FeeConfig where
  "sigmoid_cfg = \<lparr>name = ''sigmoid'', r_min_bps = 5, r_max_bps = 3000, w_mid = 1000, steepness = 500\<rparr>"

section \<open>The UTXO model (gini\_utxo\_model.py)\<close>

text \<open>
  Coin values, cluster wealth and fees are Python floats, modelled as reals. The UTXO set
  holds two dicts, \<open>utxos\<close> from id to coin and \<open>by_owner\<close> from agent id to the list of its
  coin ids; both are association lists in insertion order.
\<close>

record UTXO =
  utxo_id :: int
  utxo_value :: real
  utxo_tags :: tags
  utxo_owner :: int

record UTXOSet =
  utxos :: "(int \<times> UTXO) list"
  by_owner :: "(int \<times> int list) list"
  next_id :: int
  utxo_next_cluster :: int












record USimState =
  utxo_set :: UTXOSet
  u_fee_config :: FeeConfig
  initial_cluster_wealth :: "(int \<times> real) list"
  u_total_fees :: real
  u_decay_rate :: int


















section \<open>The account model (gini\_account\_model.py)\<close>
















section \<open>The cluster model (gini\_cluster\_model.py)\<close>



















section \<open>The ten-year model (gini\_10yr\_model.py)\<close>







section \<open>Lemmas about decay\<close>

lemma apply_decay_zero_id:
  "list_all (\<lambda>(c, w). w \<ge> TAG_PRUNE_THRESHOLD) tgs \<Longrightarrow> apply_decay tgs 0 = tgs"
  by (induction tgs) auto

lemma utxo_apply_decay_zero_id:
  "list_all (\<lambda>(c, w). w \<ge> UTXO_TAG_PRUNE_THRESHOLD) tgs \<Longrightarrow> utxo_apply_decay tgs 0 = tgs"
  by (induction tgs) auto

lemma apply_decay_scale_empty: "apply_decay tgs TAG_SCALE = []"
  by (induction tgs) (auto simp: TAG_SCALE_def TAG_PRUNE_THRESHOLD_def)

lemma utxo_apply_decay_scale_empty: "utxo_apply_decay tgs TAG_SCALE = []"
  by (induction tgs) (auto simp: TAG_SCALE_def UTXO_TAG_PRUNE_THRESHOLD_def)

lemma tag_get_Cons:
  "tag_get ((c, w) # tgs) k = (if k = c then w else tag_get tgs k)"
  by (simp add: tag_get_def)

lemma tag_get_notin: "k \<notin> fst ` set tgs \<Longrightarrow> tag_get tgs k = 0"
  by (simp add: tag_get_def map_of_eq_None_iff [THEN iffD2])

lemma apply_decay_keys: "fst ` set (apply_decay tgs d) \<subseteq> fst ` set tgs"
  by (induction tgs) (force simp: Let_def split: if_splits)+

lemma utxo_apply_decay_keys: "fst ` set (utxo_apply_decay tgs d) \<subseteq> fst ` set tgs"
  by (induction tgs) (force simp: Let_def split: if_splits)+

lemma tag_get_apply_decay:
  "distinct (map fst tgs) \<Longrightarrow>
   tag_get (apply_decay tgs d) k =
     (if tag_get tgs k - tag_get tgs k * d div TAG_SCALE \<ge> TAG_PRUNE_THRESHOLD
         \<and> k \<in> fst ` set tgs
      then tag_get tgs k - tag_get tgs k * d div TAG_SCALE else 0)"
proof (induction tgs)
  case Nil
  then show ?case by (simp add: tag_get_def)
next
  case (Cons e tgs)
  obtain c w where e: "e = (c, w)" by (cases e)
  have notin: "c \<notin> fst ` set (apply_decay tgs d)"
    using Cons.prems apply_decay_keys [of tgs d] by (auto simp: e)
  show ?case
  proof (cases "k = c")
    case True
    then show ?thesis
      using notin by (simp add: e Let_def tag_get_Cons tag_get_notin)
  next
    case False
    then show ?thesis
      using Cons by (simp add: e Let_def tag_get_Cons)
  qed
qed

lemma tag_get_utxo_apply_decay:
  "distinct (map fst tgs) \<Longrightarrow>
   tag_get (utxo_apply_decay tgs d) k =
     (if tag_get tgs k - tag_get tgs k * d div TAG_SCALE \<ge> UTXO_TAG_PRUNE_THRESHOLD
         \<and> k \<in> fst ` set tgs
      then tag_get tgs k - tag_get tgs k * d div TAG_SCALE else 0)"
proof (induction tgs)
  case Nil
  then show ?case by (simp add: tag_get_def)
next
  case (Cons e tgs)
  obtain c w where e: "e = (c, w)" by (cases e)
  have notin: "c \<notin> fst ` set (utxo_apply_decay tgs d)"
    using Cons.prems utxo_apply_decay_keys [of tgs d] by (auto simp: e)
  show ?case
  proof (cases "k = c")
    case True
    then show ?thesis
      using notin by (simp add: e Let_def tag_get_Cons tag_get_notin)
  next
    case False
    then show ?thesis
      using Cons by (simp add: e Let_def tag_get_Cons)
  qed
qed

lemma tag_get_nonneg:
  "list_all (\<lambda>(c, w). 0 \<le> w) tgs \<Longrightarrow> 0 \<le> tag_get tgs k"
  by (induction tgs) (auto simp: tag_get_Cons tag_get_def)

text \<open>The integer facts behind the decay bound, for one weight.\<close>

lemma decayed_le:
  fixes w d :: int
  assumes "0 \<le> w" "0 \<le> d"
  shows "w - w * d div TAG_SCALE \<le> w"
proof -
  have "0 \<le> w * d div TAG_SCALE"
    using assms by (simp add: TAG_SCALE_def pos_imp_zdiv_nonneg_iff)
  then show ?thesis by simp
qed

lemma decayed_less:
  fixes w d :: int
  assumes "TAG_SCALE \<le> w * d"
  shows "w - w * d div TAG_SCALE < w"
proof -
  have "1 \<le> w * d div TAG_SCALE"
    using assms by (simp add: TAG_SCALE_def pos_imp_zdiv_pos_iff)
  then show ?thesis by simp
qed

lemma decayed_upper:
  fixes w d :: int
  shows "real_of_int (w - w * d div TAG_SCALE)
           < (1 - real_of_int d / real_of_int TAG_SCALE) * real_of_int w + 1"
proof -
  have "real_of_int (w * d) / real_of_int TAG_SCALE - 1
          < of_int \<lfloor>real_of_int (w * d) / real_of_int TAG_SCALE\<rfloor>"
    by linarith
  then have "real_of_int (w * d) / real_of_int TAG_SCALE - 1 < real_of_int (w * d div TAG_SCALE)"
    by (simp only: floor_divide_of_int_eq)
  then show ?thesis by (simp add: algebra_simps)
qed

lemma decayed_lower:
  fixes w d :: int
  shows "(1 - real_of_int d / real_of_int TAG_SCALE) * real_of_int w
           \<le> real_of_int (w - w * d div TAG_SCALE)"
proof -
  have "of_int \<lfloor>real_of_int (w * d) / real_of_int TAG_SCALE\<rfloor>
          \<le> real_of_int (w * d) / real_of_int TAG_SCALE"
    by linarith
  then have "real_of_int (w * d div TAG_SCALE) \<le> real_of_int (w * d) / real_of_int TAG_SCALE"
    by (simp only: floor_divide_of_int_eq)
  then show ?thesis by (simp add: algebra_simps)
qed

section \<open>Claims about decay\<close>

text \<open>
  Claim C9. For a tag vector whose entries all have weight at least the prune threshold,
  decay with rate 0 returns the vector unchanged, and decay with rate \<open>TAG_SCALE\<close> returns
  the empty vector. Both \<open>apply_decay\<close> functions are covered, each with its own threshold;
  the second half needs no assumption on the vector.
\<close>

theorem decay_rate_extremes:
  "(list_all (\<lambda>(c, w). w \<ge> TAG_PRUNE_THRESHOLD) tgs \<longrightarrow>
      apply_decay tgs 0 = tgs \<and> apply_decay tgs TAG_SCALE = [])
   \<and> (list_all (\<lambda>(c, w). w \<ge> UTXO_TAG_PRUNE_THRESHOLD) tgs \<longrightarrow>
      utxo_apply_decay tgs 0 = tgs \<and> utxo_apply_decay tgs TAG_SCALE = [])"
  by (simp add: apply_decay_zero_id utxo_apply_decay_zero_id
      apply_decay_scale_empty utxo_apply_decay_scale_empty)

text \<open>The theorem of C9 at the vector \<open>{1: 600000, 2: 5000}\<close>.\<close>

theorem decay_rate_extremes_witness:
  "list_all (\<lambda>(c, w). w \<ge> TAG_PRUNE_THRESHOLD) [(1, 600000), (2, 5000)]
   \<and> list_all (\<lambda>(c, w). w \<ge> UTXO_TAG_PRUNE_THRESHOLD) [(1, 600000), (2, 5000)]
   \<and> apply_decay [(1, 600000), (2, 5000)] 0 = [(1, 600000), (2, 5000)]
   \<and> apply_decay [(1, 600000), (2, 5000)] TAG_SCALE = []
   \<and> utxo_apply_decay [(1, 600000), (2, 5000)] 0 = [(1, 600000), (2, 5000)]
   \<and> utxo_apply_decay [(1, 600000), (2, 5000)] TAG_SCALE = []"
  using decay_rate_extremes [of "[(1, 600000), (2, 5000)]"]
  by (simp add: TAG_PRUNE_THRESHOLD_def UTXO_TAG_PRUNE_THRESHOLD_def)

text \<open>
  Claim C4 as stated fails. The decay amount \<open>weight * decay_rate // TAG_SCALE\<close> is rounded
  down, so the output weight can exceed \<open>(1 - d) * weight\<close>: weight 1001 at rate 50000
  (5 percent) becomes 951, above 950.95. When \<open>weight * decay_rate < TAG_SCALE\<close> nothing is
  subtracted: weight 1000 at rate 1 stays 1000, not strictly less.
\<close>

theorem decay_bound_counterexample:
  "\<not> (real_of_int (tag_get (apply_decay [(7, 1001)] 50000) 7)
        \<le> (1 - 50000 / real_of_int TAG_SCALE) * real_of_int (tag_get [(7, 1001)] 7))
   \<and> \<not> (tag_get (apply_decay [(7, 1000)] 1) 7 < tag_get [(7, 1000)] 7)"
  by (simp add: tag_get_def TAG_SCALE_def TAG_PRUNE_THRESHOLD_def)

text \<open>
  Claim C4, amended. For a tag vector with non-negative weights and a decay rate
  \<open>0 \<le> d \<le> TAG_SCALE\<close>, every cluster's output weight (0 for an absent or pruned
  cluster) is at most its input weight and less than \<open>(1 - d/TAG_SCALE) * input + 1\<close>;
  an entry that is kept is at least \<open>(1 - d/TAG_SCALE) * input\<close>; and the output is
  strictly less than the input whenever \<open>input * d \<ge> TAG_SCALE\<close>.
\<close>

theorem decay_bound:
  assumes "distinct (map fst tgs)" and "list_all (\<lambda>(c, w). 0 \<le> w) tgs"
    and "0 \<le> d" and "d \<le> TAG_SCALE"
  shows "(tag_get (apply_decay tgs d) k \<le> tag_get tgs k
      \<and> real_of_int (tag_get (apply_decay tgs d) k)
           < (1 - real_of_int d / real_of_int TAG_SCALE) * real_of_int (tag_get tgs k) + 1
      \<and> (tag_get (apply_decay tgs d) k = 0
           \<or> (1 - real_of_int d / real_of_int TAG_SCALE) * real_of_int (tag_get tgs k)
                \<le> real_of_int (tag_get (apply_decay tgs d) k))
      \<and> (TAG_SCALE \<le> tag_get tgs k * d \<longrightarrow> tag_get (apply_decay tgs d) k < tag_get tgs k))
    \<and> (tag_get (utxo_apply_decay tgs d) k \<le> tag_get tgs k
      \<and> real_of_int (tag_get (utxo_apply_decay tgs d) k)
           < (1 - real_of_int d / real_of_int TAG_SCALE) * real_of_int (tag_get tgs k) + 1
      \<and> (tag_get (utxo_apply_decay tgs d) k = 0
           \<or> (1 - real_of_int d / real_of_int TAG_SCALE) * real_of_int (tag_get tgs k)
                \<le> real_of_int (tag_get (utxo_apply_decay tgs d) k))
      \<and> (TAG_SCALE \<le> tag_get tgs k * d \<longrightarrow> tag_get (utxo_apply_decay tgs d) k < tag_get tgs k))"
proof -
  define w where "w = tag_get tgs k"
  define r where "r = w - w * d div TAG_SCALE"
  have w0: "0 \<le> w"
    unfolding w_def using assms(2) by (rule tag_get_nonneg)
  have r_le: "r \<le> w"
    unfolding r_def using w0 assms(3) by (rule decayed_le)
  have r_up: "real_of_int r < (1 - real_of_int d / real_of_int TAG_SCALE) * real_of_int w + 1"
    unfolding r_def by (rule decayed_upper)
  have r_lo: "(1 - real_of_int d / real_of_int TAG_SCALE) * real_of_int w \<le> real_of_int r"
    unfolding r_def by (rule decayed_lower)
  have r_less: "TAG_SCALE \<le> w * d \<Longrightarrow> r < w"
    unfolding r_def by (rule decayed_less)
  have pos: "TAG_SCALE \<le> w * d \<Longrightarrow> 0 < w"
    using w0 by (cases "w = 0") (simp_all add: TAG_SCALE_def)
  have zero_up: "(0::real) < (1 - real_of_int d / real_of_int TAG_SCALE) * real_of_int w + 1"
  proof -
    have "0 \<le> 1 - real_of_int d / real_of_int TAG_SCALE"
      using assms(4) by (simp add: TAG_SCALE_def)
    then have "0 \<le> (1 - real_of_int d / real_of_int TAG_SCALE) * real_of_int w"
      using w0 by simp
    then show ?thesis by linarith
  qed
  have a: "tag_get (apply_decay tgs d) k = r \<or> tag_get (apply_decay tgs d) k = 0"
    using tag_get_apply_decay [OF assms(1), of d k] by (simp add: r_def w_def)
  have u: "tag_get (utxo_apply_decay tgs d) k = r \<or> tag_get (utxo_apply_decay tgs d) k = 0"
    using tag_get_utxo_apply_decay [OF assms(1), of d k] by (simp add: r_def w_def)
  have gen: "x \<le> w \<and> real_of_int x < (1 - real_of_int d / real_of_int TAG_SCALE) * real_of_int w + 1
      \<and> (x = 0 \<or> (1 - real_of_int d / real_of_int TAG_SCALE) * real_of_int w \<le> real_of_int x)
      \<and> (TAG_SCALE \<le> w * d \<longrightarrow> x < w)" if "x = r \<or> x = 0" for x
    using that r_le r_up r_lo r_less pos w0 zero_up by auto
  show ?thesis
    using gen [OF a] gen [OF u] unfolding w_def by blast
qed

text \<open>The amended C4 at the vector \<open>{7: 1001, 8: 200000}\<close>, rate 50000, cluster 8.\<close>

theorem decay_bound_witness:
  "distinct (map fst [(7::int, 1001::int), (8, 200000)])
   \<and> list_all (\<lambda>(c, w). 0 \<le> w) [(7::int, 1001::int), (8, 200000)]
   \<and> (0::int) \<le> 50000 \<and> 50000 \<le> TAG_SCALE
   \<and> TAG_SCALE \<le> tag_get [(7, 1001), (8, 200000)] 8 * 50000
   \<and> tag_get (apply_decay [(7, 1001), (8, 200000)] 50000) 8 < tag_get [(7, 1001), (8, 200000)] 8
   \<and> tag_get (utxo_apply_decay [(7, 1001), (8, 200000)] 50000) 8 < tag_get [(7, 1001), (8, 200000)] 8"
  using decay_bound [of "[(7, 1001), (8, 200000)]" 50000 8]
  by (simp add: TAG_SCALE_def UTXO_TAG_PRUNE_THRESHOLD_def TAG_PRUNE_THRESHOLD_def tag_get_def)

section \<open>The cluster ledger stays non-negative\<close>

lemma ledger_ok_init: "ledger_ok ClusterWealth_init"
  by (simp add: ledger_ok_def ClusterWealth_init_def)

lemma ledger_ok_step: "ledger_ok cw \<Longrightarrow> ledger_ok (ledger_step cw op)"
  by (cases op) (auto simp: ledger_ok_def new_cluster_def apply_delta_def Let_def)

lemma ledger_ok_foldl: "ledger_ok cw \<Longrightarrow> ledger_ok (foldl ledger_step cw ops)"
  by (induction ops arbitrary: cw) (simp_all add: ledger_ok_step)

lemma cw_get_apply_delta:
  "cw_get (apply_delta cw c delta) c = max 0 (cw_get cw c + delta)"
  by (simp add: cw_get_def apply_delta_def Let_def split: option.splits)

text \<open>
  Claim C7. After every sequence of \<open>new_cluster\<close> and \<open>apply_delta\<close> calls on a fresh
  ledger, every stored wealth is at least 0, and so is every \<open>get\<close>. On any ledger,
  \<open>apply_delta\<close> leaves \<open>max(0, wealth + delta)\<close>, so a negative delta larger than the
  wealth gives 0. The operations have no failing branch.
\<close>

theorem ledger_wealth_nonneg:
  "(\<forall>w. wealth (ledger_run ops) c = Some w \<longrightarrow> 0 \<le> w)
   \<and> 0 \<le> cw_get (ledger_run ops) c
   \<and> cw_get (apply_delta cw c delta) c = max 0 (cw_get cw c + delta)"
proof -
  have ok: "ledger_ok (ledger_run ops)"
    unfolding ledger_run_def by (rule ledger_ok_foldl [OF ledger_ok_init])
  then have "\<forall>w. wealth (ledger_run ops) c = Some w \<longrightarrow> 0 \<le> w"
    by (simp add: ledger_ok_def)
  moreover from this have "0 \<le> cw_get (ledger_run ops) c"
    by (simp add: cw_get_def split: option.splits)
  ultimately show ?thesis
    by (simp add: cw_get_apply_delta)
qed

text \<open>The theorem of C7 on a run that overdraws cluster 0 and an unknown cluster 3.\<close>

theorem ledger_wealth_nonneg_witness:
  "wealth (ledger_run [NewCluster, ApplyDelta 0 5, ApplyDelta 0 (- 8), ApplyDelta 3 (- 2)]) 0 = Some 0
   \<and> wealth (ledger_run [NewCluster, ApplyDelta 0 5, ApplyDelta 0 (- 8), ApplyDelta 3 (- 2)]) 3 = Some 0
   \<and> cw_get (apply_delta (ledger_run [NewCluster, ApplyDelta 0 5]) 0 (- 8)) 0 = 0"
  using ledger_wealth_nonneg [of "[NewCluster, ApplyDelta 0 5, ApplyDelta 0 (- 8), ApplyDelta 3 (- 2)]" 0
      "ledger_run [NewCluster, ApplyDelta 0 5]" "- 8"]
  by (simp add: ledger_run_def new_cluster_def apply_delta_def ClusterWealth_init_def cw_get_def)

section \<open>Mixing with a zero value\<close>

lemma map_of_mix_loop:
  "map_of (mix_loop s sv i iv cs) c =
     (if c \<in> set cs \<and> TAG_PRUNE_THRESHOLD \<le> mix_weight s sv i iv c
      then Some (mix_weight s sv i iv c) else None)"
  by (induction cs) (auto simp: Let_def)

lemma map_of_prune:
  "distinct (map fst tgs) \<Longrightarrow>
   map_of (prune tgs) c =
     (if c \<in> fst ` set tgs \<and> TAG_PRUNE_THRESHOLD \<le> tag_get tgs c
      then Some (tag_get tgs c) else None)"
proof (induction tgs)
  case Nil
  then show ?case by (simp add: prune_def)
next
  case (Cons e tgs)
  obtain k w where e: "e = (k, w)" by (cases e)
  have "c \<notin> fst ` set tgs" if "c = k"
    using Cons.prems that by (auto simp: e)
  moreover have "map_of (prune tgs) c = None" if "c \<notin> fst ` set tgs"
    using that by (auto simp: map_of_eq_None_iff prune_def)
  ultimately show ?case
    using Cons by (auto simp: e prune_def tag_get_Cons)
qed

lemma prune_id:
  "list_all (\<lambda>(c, w). w \<ge> TAG_PRUNE_THRESHOLD) tgs \<Longrightarrow> prune tgs = tgs"
  by (induction tgs) (auto simp: prune_def)

lemma tag_threshold_pos:
  "TAG_PRUNE_THRESHOLD \<le> tag_get tgs c \<Longrightarrow> c \<in> fst ` set tgs"
  using tag_get_notin [of c tgs] by (auto simp: TAG_PRUNE_THRESHOLD_def)

text \<open>
  Claim C8 as stated fails when both values are 0: \<open>mix_tags\<close> returns the empty vector
  (its guard \<open>total_value == 0\<close>), though the other vector holds an entry above the
  threshold.
\<close>

theorem mix_tags_zero_value_counterexample:
  "mix_tags [] 0 [(1, 500000)] 0 = []
   \<and> prune [(1, 500000)] = [(1, 500000)]
   \<and> mix_tags [(1, 500000)] 0 [] 0 \<noteq> [(1, 500000)]"
  by (simp add: mix_tags_def prune_def TAG_PRUNE_THRESHOLD_def)

text \<open>
  Claim C8, amended. With \<open>self_value = 0\<close> and \<open>incoming_value \<noteq> 0\<close> the result is
  the incoming vector with its entries below the threshold pruned; with
  \<open>incoming_value = 0\<close> and \<open>self_value \<noteq> 0\<close> it is the self vector pruned in the same
  way, so unchanged when all its weights reach the threshold; with both values 0 it is
  empty. Dicts are compared as Python does, by their key-value pairs.
\<close>

theorem mix_tags_degenerate:
  assumes "distinct (map fst self_tags)" and "distinct (map fst incoming_tags)"
  shows "(incoming_value \<noteq> 0 \<longrightarrow>
            map_of (mix_tags self_tags 0 incoming_tags incoming_value) = map_of (prune incoming_tags))
       \<and> (self_value \<noteq> 0 \<longrightarrow>
            map_of (mix_tags self_tags self_value incoming_tags 0) = map_of (prune self_tags))
       \<and> (self_value \<noteq> 0 \<and> list_all (\<lambda>(c, w). w \<ge> TAG_PRUNE_THRESHOLD) self_tags \<longrightarrow>
            map_of (mix_tags self_tags self_value incoming_tags 0) = map_of self_tags)
       \<and> mix_tags self_tags 0 incoming_tags 0 = []"
proof -
  have inc: "map_of (mix_tags self_tags 0 incoming_tags incoming_value) c
               = map_of (prune incoming_tags) c" if "incoming_value \<noteq> 0" for c
    using that tag_threshold_pos [of incoming_tags c]
    by (auto simp: mix_tags_def Let_def map_of_mix_loop map_of_prune [OF assms(2)] mix_weight_def)
  have slf: "map_of (mix_tags self_tags self_value incoming_tags 0) c
               = map_of (prune self_tags) c" if "self_value \<noteq> 0" for c
    using that tag_threshold_pos [of self_tags c]
    by (auto simp: mix_tags_def Let_def map_of_mix_loop map_of_prune [OF assms(1)] mix_weight_def)
  show ?thesis
    using inc slf by (auto simp: fun_eq_iff prune_id mix_tags_def)
qed

text \<open>The amended C8 at two concrete vectors, with values (0, 40) and (9, 0).\<close>

theorem mix_tags_degenerate_witness:
  "distinct (map fst [(1::int, 700000::int), (2, 100)])
   \<and> distinct (map fst [(2::int, 300000::int), (3, 50)])
   \<and> map_of (mix_tags [(1, 700000), (2, 100)] 0 [(2, 300000), (3, 50)] 40) = map_of [(2, 300000)]
   \<and> map_of (mix_tags [(1, 700000), (2, 100)] 9 [(2, 300000), (3, 50)] 0) = map_of [(1, 700000), (2, 100)]"
  using mix_tags_degenerate [of "[(1, 700000), (2, 100)]" "[(2, 300000), (3, 50)]" 40 9]
  by (simp add: prune_def TAG_PRUNE_THRESHOLD_def)

section \<open>The explicit weight stays within the scale\<close>

lemma ftotal_Nil: "ftotal [] = 0"
  by (simp add: ftotal_def)

lemma ftotal_acc_add: "ftotal (acc_add b c x) = ftotal b + x"
  by (induction b) (auto simp: ftotal_def)

lemma nonneg_acc_add:
  "list_all (\<lambda>(c, x). 0 \<le> x) b \<Longrightarrow> 0 \<le> x \<Longrightarrow> list_all (\<lambda>(c, x). 0 \<le> x) (acc_add b c x)"
  by (induction b) auto

lemma ftotal_blend_inner:
  "ftotal (blend_inner b w tgs) = ftotal b + w * of_int (tag_total tgs)"
  by (induction tgs arbitrary: b) (auto simp: ftotal_acc_add tag_total_def algebra_simps)

lemma nonneg_blend_inner:
  "list_all (\<lambda>(c, x). 0 \<le> x) b \<Longrightarrow> 0 \<le> w \<Longrightarrow> list_all (\<lambda>(c, w). 0 \<le> w) tgs \<Longrightarrow>
   list_all (\<lambda>(c, x). 0 \<le> x) (blend_inner b w tgs)"
  by (induction tgs arbitrary: b) (auto simp: nonneg_acc_add)

lemma ftotal_blend_outer:
  fixes T :: real
  shows "ftotal (blend_outer b T ins) =
     ftotal b + (\<Sum>(v, tgs)\<leftarrow>ins. v / T * of_int (tag_total tgs))"
  by (induction ins arbitrary: b) (auto simp: ftotal_blend_inner)

lemma nonneg_blend_outer:
  "list_all (\<lambda>(c, x). 0 \<le> x) b \<Longrightarrow> 0 < T \<Longrightarrow>
   list_all (\<lambda>(v, tgs). 0 \<le> v \<and> list_all (\<lambda>(c, w). 0 \<le> w) tgs) ins \<Longrightarrow>
   list_all (\<lambda>(c, x). 0 \<le> x) (blend_outer b T ins)"
  by (induction ins arbitrary: b) (auto simp: nonneg_blend_inner)

lemma total_blend_result:
  "list_all (\<lambda>(c, x). 0 \<le> x) b \<Longrightarrow> of_int (tag_total (blend_result b)) \<le> ftotal b"
proof (induction b)
  case Nil
  then show ?case by (simp add: tag_total_def ftotal_def)
next
  case (Cons e b)
  obtain c x where e: "e = (c, x)" by (cases e)
  have x: "0 \<le> x" using Cons.prems by (simp add: e)
  then have "real_of_int (py_int x) \<le> x" by (simp add: py_int_def)
  then show ?case
    using Cons x by (auto simp: e Let_def tag_total_def ftotal_def)
qed

lemma weighted_total_le:
  fixes T :: real
  assumes "0 < T"
    and "list_all (\<lambda>(v, tgs). 0 \<le> v \<and> tag_total tgs \<le> TAG_SCALE) ins"
  shows "(\<Sum>(v, tgs)\<leftarrow>ins. v / T * of_int (tag_total tgs))
           \<le> sum_list (map fst ins) / T * of_int TAG_SCALE"
  using assms(2)
proof (induction ins)
  case Nil
  then show ?case by simp
next
  case (Cons e ins)
  obtain v tgs where e: "e = (v, tgs)" by (cases e)
  have "v / T * real_of_int (tag_total tgs) \<le> v / T * real_of_int TAG_SCALE"
    using Cons.prems assms(1) by (intro mult_left_mono) (simp_all add: e)
  then show ?case
    using Cons by (simp add: e algebra_simps add_divide_distrib)
qed

lemma sum_fst_nonneg:
  "list_all (\<lambda>(v, tgs). (0::real) \<le> v \<and> P tgs) ins \<Longrightarrow> 0 \<le> sum_list (map fst ins)"
  by (induction ins) auto

lemma blend_tags_total:
  assumes "list_all (\<lambda>(v, tgs). 0 \<le> v \<and> wf_tags tgs) inputs"
  shows "tag_total (blend_tags inputs) \<le> TAG_SCALE"
proof (cases "sum_list (map fst inputs) = 0")
  case True
  then show ?thesis by (simp add: blend_tags_def tag_total_def TAG_SCALE_def)
next
  case False
  define T where "T = sum_list (map fst inputs)"
  have "0 \<le> T"
    unfolding T_def using assms by (intro sum_fst_nonneg [where P = wf_tags])
  with False have T: "0 < T" by (simp add: T_def)
  have a1: "list_all (\<lambda>(v, tgs). 0 \<le> v \<and> list_all (\<lambda>(c, w). 0 \<le> w) tgs) inputs"
    using assms by (auto simp: list_all_iff wf_tags_def)
  have a2: "list_all (\<lambda>(v, tgs). 0 \<le> v \<and> tag_total tgs \<le> TAG_SCALE) inputs"
    using assms by (auto simp: list_all_iff wf_tags_def)
  have "real_of_int (tag_total (blend_result (blend_outer [] T inputs)))
          \<le> ftotal (blend_outer [] T inputs)"
    by (rule total_blend_result) (rule nonneg_blend_outer [OF _ T a1], simp)
  also have "\<dots> = (\<Sum>(v, tgs)\<leftarrow>inputs. v / T * of_int (tag_total tgs))"
    by (simp add: ftotal_blend_outer ftotal_Nil)
  also have "\<dots> \<le> sum_list (map fst inputs) / T * of_int TAG_SCALE"
    by (rule weighted_total_le [OF T a2])
  also have "\<dots> = of_int TAG_SCALE"
    using T by (simp add: T_def)
  finally show ?thesis
    using False by (simp add: blend_tags_def T_def)
qed

lemma apply_decay_total:
  "list_all (\<lambda>(c, w). 0 \<le> w) tgs \<Longrightarrow> 0 \<le> d \<Longrightarrow> tag_total (apply_decay tgs d) \<le> tag_total tgs"
proof (induction tgs)
  case Nil
  then show ?case by simp
next
  case (Cons e tgs)
  obtain c w where e: "e = (c, w)" by (cases e)
  have "w - w * d div TAG_SCALE \<le> w"
    using Cons.prems by (intro decayed_le) (simp_all add: e)
  then show ?case
    using Cons by (auto simp: e Let_def tag_total_def)
qed

lemma utxo_apply_decay_total:
  "list_all (\<lambda>(c, w). 0 \<le> w) tgs \<Longrightarrow> 0 \<le> d \<Longrightarrow> tag_total (utxo_apply_decay tgs d) \<le> tag_total tgs"
proof (induction tgs)
  case Nil
  then show ?case by simp
next
  case (Cons e tgs)
  obtain c w where e: "e = (c, w)" by (cases e)
  have "w - w * d div TAG_SCALE \<le> w"
    using Cons.prems by (intro decayed_le) (simp_all add: e)
  then show ?case
    using Cons by (auto simp: e Let_def tag_total_def)
qed


lemma sum_tag_get:
  "finite A \<Longrightarrow> distinct (map fst tgs) \<Longrightarrow> fst ` set tgs \<subseteq> A \<Longrightarrow>
   sum (tag_get tgs) A = tag_total tgs"
proof (induction tgs)
  case Nil
  then show ?case by (simp add: tag_get_def tag_total_def)
next
  case (Cons e tgs)
  obtain k w where e: "e = (k, w)" by (cases e)
  have k: "k \<in> A" and notin: "k \<notin> fst ` set tgs"
    using Cons.prems by (auto simp: e)
  have "sum (tag_get (e # tgs)) A = tag_get (e # tgs) k + sum (tag_get (e # tgs)) (A - {k})"
    using Cons.prems(1) k by (rule sum.remove)
  also have "sum (tag_get (e # tgs)) (A - {k}) = sum (tag_get tgs) (A - {k})"
    by (rule sum.cong) (simp_all add: e tag_get_Cons)
  also have "tag_get (e # tgs) k = w"
    by (simp add: e tag_get_Cons)
  finally have "sum (tag_get (e # tgs)) A = w + (tag_get tgs k + sum (tag_get tgs) (A - {k}))"
    using notin by (simp add: tag_get_notin)
  also have "tag_get tgs k + sum (tag_get tgs) (A - {k}) = sum (tag_get tgs) A"
    using Cons.prems(1) k by (rule sum.remove [symmetric])
  also have "\<dots> = tag_total tgs"
    using Cons by simp
  finally show ?case by (simp add: e tag_total_def)
qed

lemma sum_list_div_mult_le:
  fixes T :: int
  assumes "0 < T"
  shows "(\<Sum>c\<leftarrow>cs. f c div T) * T \<le> (\<Sum>c\<leftarrow>cs. f c)"
proof (induction cs)
  case Nil
  then show ?case by simp
next
  case (Cons c cs)
  have "f c div T * T \<le> f c"
    using assms by (simp add: minus_mod_eq_div_mult [symmetric])
  then show ?case
    using Cons by (simp add: algebra_simps)
qed

lemma mix_loop_total:
  assumes "\<And>c. c \<in> set cs \<Longrightarrow> 0 \<le> mix_weight s sv i iv c"
  shows "tag_total (mix_loop s sv i iv cs) \<le> (\<Sum>c\<leftarrow>cs. mix_weight s sv i iv c)"
  using assms
proof (induction cs)
  case Nil
  then show ?case by (simp add: tag_total_def)
next
  case (Cons c cs)
  have "0 \<le> mix_weight s sv i iv c" using Cons.prems by simp
  moreover have "tag_total (mix_loop s sv i iv cs) \<le> (\<Sum>c\<leftarrow>cs. mix_weight s sv i iv c)"
    using Cons by simp
  ultimately show ?case
    by (auto simp: Let_def tag_total_def)
qed

lemma mix_tags_total:
  assumes s: "wf_tags self_tags" and i: "wf_tags incoming_tags"
    and sv: "0 \<le> self_value" and iv: "0 \<le> incoming_value"
  shows "tag_total (mix_tags self_tags self_value incoming_tags incoming_value) \<le> TAG_SCALE"
proof (cases "self_value + incoming_value = 0")
  case True
  then show ?thesis by (simp add: mix_tags_def tag_total_def TAG_SCALE_def)
next
  case False
  define T where "T = self_value + incoming_value"
  define cs where "cs = remdups (map fst self_tags @ map fst incoming_tags)"
  define num where "num = (\<lambda>c. self_value * tag_get self_tags c + incoming_value * tag_get incoming_tags c)"
  have T: "0 < T" using False sv iv by (simp add: T_def)
  have d: "distinct cs" by (simp add: cs_def)
  have gs: "0 \<le> tag_get self_tags c" for c
    using s by (intro tag_get_nonneg) (simp add: wf_tags_def)
  have gi: "0 \<le> tag_get incoming_tags c" for c
    using i by (intro tag_get_nonneg) (simp add: wf_tags_def)
  have mw: "mix_weight self_tags self_value incoming_tags incoming_value c = num c div T" for c
    by (simp add: mix_weight_def num_def T_def)
  have nonneg: "0 \<le> num c div T" for c
    using T sv iv gs [of c] gi [of c] by (simp add: num_def pos_imp_zdiv_nonneg_iff)
  have sub: "fst ` set self_tags \<subseteq> set cs" "fst ` set incoming_tags \<subseteq> set cs"
    by (auto simp: cs_def)
  have ss: "(\<Sum>c\<leftarrow>cs. tag_get self_tags c) = tag_total self_tags"
    unfolding sum_list_distinct_conv_sum_set [OF d]
    using s sub(1) by (intro sum_tag_get) (simp_all add: wf_tags_def)
  have si: "(\<Sum>c\<leftarrow>cs. tag_get incoming_tags c) = tag_total incoming_tags"
    unfolding sum_list_distinct_conv_sum_set [OF d]
    using i sub(2) by (intro sum_tag_get) (simp_all add: wf_tags_def)
  have "tag_total (mix_loop self_tags self_value incoming_tags incoming_value cs)
          \<le> (\<Sum>c\<leftarrow>cs. num c div T)"
    using mix_loop_total [of cs self_tags self_value incoming_tags incoming_value] nonneg
    by (simp add: mw)
  then have "tag_total (mix_loop self_tags self_value incoming_tags incoming_value cs) * T
          \<le> (\<Sum>c\<leftarrow>cs. num c div T) * T"
    using T by simp
  also have "\<dots> \<le> (\<Sum>c\<leftarrow>cs. num c)"
    by (rule sum_list_div_mult_le [OF T])
  also have "\<dots> = self_value * tag_total self_tags + incoming_value * tag_total incoming_tags"
    by (simp add: num_def sum_list_addf sum_list_const_mult ss si)
  also have "\<dots> \<le> self_value * TAG_SCALE + incoming_value * TAG_SCALE"
    using s i sv iv by (intro add_mono mult_left_mono) (simp_all add: wf_tags_def)
  also have "\<dots> = TAG_SCALE * T"
    by (simp add: T_def algebra_simps)
  finally have "tag_total (mix_loop self_tags self_value incoming_tags incoming_value cs) \<le> TAG_SCALE"
    using T by simp
  then show ?thesis
    using False by (simp add: mix_tags_def cs_def)
qed


text \<open>
  Claim C10. For well-formed tag vectors (non-negative weights that sum to at most
  \<open>TAG_SCALE\<close>), non-negative values and a non-negative decay rate, the vectors produced
  by \<open>blend_tags\<close>, by both \<open>apply_decay\<close> functions and by \<open>mix_tags\<close> have weights that
  sum to at most \<open>TAG_SCALE\<close>, so the background weight \<open>TAG_SCALE - sum\<close> is not negative.
\<close>

theorem explicit_weight_bounded:
  "(list_all (\<lambda>(v, tgs). 0 \<le> v \<and> wf_tags tgs) inputs \<longrightarrow>
      tag_total (blend_tags inputs) \<le> TAG_SCALE)
   \<and> (wf_tags tgs \<and> 0 \<le> d \<longrightarrow>
      tag_total (apply_decay tgs d) \<le> TAG_SCALE \<and> tag_total (utxo_apply_decay tgs d) \<le> TAG_SCALE)
   \<and> (wf_tags self_tags \<and> wf_tags incoming_tags \<and> 0 \<le> self_value \<and> 0 \<le> incoming_value \<longrightarrow>
      tag_total (mix_tags self_tags self_value incoming_tags incoming_value) \<le> TAG_SCALE)"
proof (intro conjI impI)
  assume "list_all (\<lambda>(v, tgs). 0 \<le> v \<and> wf_tags tgs) inputs"
  then show "tag_total (blend_tags inputs) \<le> TAG_SCALE"
    by (rule blend_tags_total)
next
  assume a: "wf_tags tgs \<and> 0 \<le> d"
  then have "tag_total (apply_decay tgs d) \<le> tag_total tgs"
    by (intro apply_decay_total) (simp_all add: wf_tags_def)
  with a show "tag_total (apply_decay tgs d) \<le> TAG_SCALE"
    by (simp add: wf_tags_def)
next
  assume a: "wf_tags tgs \<and> 0 \<le> d"
  then have "tag_total (utxo_apply_decay tgs d) \<le> tag_total tgs"
    by (intro utxo_apply_decay_total) (simp_all add: wf_tags_def)
  with a show "tag_total (utxo_apply_decay tgs d) \<le> TAG_SCALE"
    by (simp add: wf_tags_def)
next
  assume "wf_tags self_tags \<and> wf_tags incoming_tags \<and> 0 \<le> self_value \<and> 0 \<le> incoming_value"
  then show "tag_total (mix_tags self_tags self_value incoming_tags incoming_value) \<le> TAG_SCALE"
    by (simp add: mix_tags_total)
qed

text \<open>The theorem of C10 at concrete vectors; the blend of the two inputs is computed.\<close>

theorem explicit_weight_bounded_witness:
  "list_all (\<lambda>(v, tgs). 0 \<le> v \<and> wf_tags tgs)
      [(100::real, [(1, 1000000)]), (300, [(2, 600000), (1, 400000)])]
   \<and> blend_tags [(100, [(1, 1000000)]), (300, [(2, 600000), (1, 400000)])] = [(1, 550000), (2, 450000)]
   \<and> wf_tags [(1, 550000), (2, 450000)] \<and> (0::int) \<le> 50000
   \<and> wf_tags [(2, 999999)] \<and> (0::int) \<le> 3 \<and> (0::int) \<le> 7
   \<and> tag_total (blend_tags [(100, [(1, 1000000)]), (300, [(2, 600000), (1, 400000)])]) \<le> TAG_SCALE
   \<and> tag_total (apply_decay [(1, 550000), (2, 450000)] 50000) \<le> TAG_SCALE
   \<and> tag_total (utxo_apply_decay [(1, 550000), (2, 450000)] 50000) \<le> TAG_SCALE
   \<and> tag_total (mix_tags [(1, 550000), (2, 450000)] 3 [(2, 999999)] 7) \<le> TAG_SCALE"
  using explicit_weight_bounded [of "[(100, [(1, 1000000)]), (300, [(2, 600000), (1, 400000)])]"
      "[(1, 550000), (2, 450000)]" 50000 "[(1, 550000), (2, 450000)]" "[(2, 999999)]" 3 7]
  by (simp add: wf_tags_def tag_total_def TAG_SCALE_def blend_tags_def py_int_def
      UTXO_TAG_PRUNE_THRESHOLD_def)

section \<open>The reference transfers\<close>

lemma replicate_10: "replicate 10 x = [x, x, x, x, x, x, x, x, x, x]"
  by (simp add: eval_nat_numeral)

text \<open>
  Claim C2 as stated fails: combining value 100,000 of source wealth 1,000,000 with value
  10,000 of source wealth 10,000 (the transfer of \<open>test_blend_on_combine\<close>) does not give
  an output of source wealth 909,909.
\<close>

theorem blend_on_combine_counterexample:
  "transfer_source_wealths (ref_transfer merchant_set [0, 1] [(''recipient'', 95000)] 1000000)
     \<noteq> Some [909909]"
  by (simp add: transfer_source_wealths_def ref_transfer_def merchant_set_def mint_def
      ref_UTXOSet_init_def Let_def compute_fee_rate_def py_int_def spend_def)

text \<open>
  Claim C2, amended. The transfer succeeds and its output has source wealth
  \<open>(100,000 * 1,000,000 + 10,000 * 10,000) // 110,000\<close>, which is 910,000.
\<close>

theorem blend_on_combine:
  "transfer_source_wealths (ref_transfer merchant_set [0, 1] [(''recipient'', 95000)] 1000000)
     = Some [(100000 * 1000000 + 10000 * 10000) div 110000]
   \<and> (100000 * 1000000 + 10000 * 10000) div 110000 = (910000::int)"
  by (simp add: transfer_source_wealths_def ref_transfer_def merchant_set_def mint_def
      ref_UTXOSet_init_def Let_def compute_fee_rate_def py_int_def spend_def)

text \<open>
  Claim C6 at the input of \<open>test_split_resistance\<close>. Minting 1,000,000 and splitting it
  into 10 outputs of 100,000 fails: the fee on the outputs is not covered, so the call
  returns \<open>(False, 0, [])\<close>, creates no output and leaves the single coin in place. With 10
  outputs of 85,000, which leave room for the fee, the split succeeds and every output has
  source wealth 1,000,000.
\<close>

theorem split_resistance_transfer_fails:
  "ref_transfer whale_set [0] (replicate 10 (''whale'', 100000)) 1000000
     = Inr (False, 0, [], whale_set)
   \<and> map (\<lambda>(k, u). (ref_value u, source_wealth u)) (ref_utxos whale_set) = [(1000000, 1000000)]
   \<and> transfer_source_wealths (ref_transfer whale_set [0] (replicate 10 (''whale'', 85000)) 1000000)
       = Some (replicate 10 1000000)"
  by (simp add: transfer_source_wealths_def ref_transfer_def whale_set_def mint_def
      ref_UTXOSet_init_def Let_def compute_fee_rate_def py_int_def spend_def replicate_10)

section \<open>Monotone fee\<close>

lemma sigmoid_mono:
  fixes x y :: real
  assumes "x \<le> y"
  shows "(if - 700 < x \<and> x < 700 then 1 / (1 + exp (- x)) else (if x < 0 then 0 else 1))
       \<le> (if - 700 < y \<and> y < 700 then 1 / (1 + exp (- y)) else (if y < 0 then 0 else (1::real)))"
proof -
  have pos: "0 < 1 + exp (- z)" for z :: real
    by (simp add: add_pos_pos)
  have le1: "1 / (1 + exp (- z)) \<le> 1" for z :: real
    using pos [of z] by (simp add: divide_le_eq)
  have ge0: "0 \<le> 1 / (1 + exp (- z))" for z :: real
    using pos [of z] by simp
  have mono: "1 / (1 + exp (- x)) \<le> 1 / (1 + exp (- y))"
    using assms pos [of x] pos [of y] by (simp add: frac_le)
  show ?thesis
    using assms le1 ge0 mono by auto
qed

lemma rate_bps_mono:
  assumes "r_min_bps cfg \<le> r_max_bps cfg" and "wB \<le> wA"
  shows "rate_bps cfg wB \<le> rate_bps cfg wA"
proof (cases "r_min_bps cfg = r_max_bps cfg")
  case True
  then show ?thesis by (simp add: rate_bps_def)
next
  case False
  have m: "0 < max (steepness cfg) 1" by simp
  have "(wB - w_mid cfg) / max (steepness cfg) 1 \<le> (wA - w_mid cfg) / max (steepness cfg) 1"
    using assms(2) m by (simp add: divide_right_mono)
  from sigmoid_mono [OF this] show ?thesis
    using False assms(1) by (simp add: rate_bps_def Let_def mult_left_mono)
qed

lemma compute_fee_rate_mono:
  assumes "r_min \<le> r_max" and "wB \<le> wA"
  shows "compute_fee_rate wB max_wealth r_min r_max \<le> compute_fee_rate wA max_wealth r_min r_max"
proof (cases "max_wealth \<le> 0")
  case True
  then show ?thesis by (simp add: compute_fee_rate_def)
next
  case False
  then have "wB / max_wealth \<le> wA / max_wealth"
    using assms(2) by (simp add: divide_right_mono)
  then have "min 1 (wB / max_wealth) \<le> min 1 (wA / max_wealth)"
    by simp
  then show ?thesis
    using False assms(1) by (simp add: compute_fee_rate_def Let_def mult_left_mono)
qed

lemma three_segment_fee_rate_mono:
  assumes "r_poor \<le> r_mid_start" and "r_mid_start \<le> r_mid_end" and "r_mid_end \<le> r_rich"
    and "wB \<le> wA"
  shows "three_segment_fee_rate wB max_wealth w1_frac w2_frac r_poor r_mid_start r_mid_end r_rich
       \<le> three_segment_fee_rate wA max_wealth w1_frac w2_frac r_poor r_mid_start r_mid_end r_rich"
proof (cases "max_wealth \<le> 0")
  case True
  then show ?thesis by (simp add: three_segment_fee_rate_def)
next
  case False
  define w1 where "w1 = max_wealth * w1_frac"
  define w2 where "w2 = max_wealth * w2_frac"
  define mid where "mid = (\<lambda>w. r_mid_start + (w - w1) / (w2 - w1) * (r_mid_end - r_mid_start))"
  have mid_lo: "r_mid_start \<le> mid w" if "w1 \<le> w" "w < w2" for w
    using that assms(2) by (simp add: mid_def)
  have mid_hi: "mid w \<le> r_mid_end" if "w1 \<le> w" "w < w2" for w
  proof -
    have "(w - w1) / (w2 - w1) \<le> 1" using that by simp
    then have "(w - w1) / (w2 - w1) * (r_mid_end - r_mid_start) \<le> 1 * (r_mid_end - r_mid_start)"
      using assms(2) by (intro mult_right_mono) simp_all
    then show ?thesis by (simp add: mid_def)
  qed
  have mid_mono: "mid wB \<le> mid wA" if "w1 \<le> wB" "wA < w2"
  proof -
    have "(wB - w1) / (w2 - w1) \<le> (wA - w1) / (w2 - w1)"
      using that assms(4) by (simp add: divide_right_mono)
    then have "(wB - w1) / (w2 - w1) * (r_mid_end - r_mid_start)
             \<le> (wA - w1) / (w2 - w1) * (r_mid_end - r_mid_start)"
      using assms(2) by (intro mult_right_mono) simp_all
    then show ?thesis
      unfolding mid_def by (rule add_left_mono)
  qed
  have eq: "three_segment_fee_rate w max_wealth w1_frac w2_frac r_poor r_mid_start r_mid_end r_rich
        = (if w < w1 then r_poor else if w < w2 then mid w else r_rich)" for w
    using False by (simp add: three_segment_fee_rate_def Let_def w1_def w2_def mid_def)
  show ?thesis
    unfolding eq
    using assms mid_lo [of wA] mid_lo [of wB] mid_hi [of wA] mid_hi [of wB] mid_mono
    by (auto simp: not_less)
qed

lemma py_int_mono: "x \<le> y \<Longrightarrow> py_int x \<le> py_int y"
  unfolding py_int_def
  by (smt (verit) ceiling_mono floor_mono floor_le_ceiling ceiling_le_zero zero_le_floor)

text \<open>
  Claim C5 as stated fails for \<open>three_segment_fee_rate\<close>: with \<open>r_poor = 0\<close>,
  \<open>r_rich = 1/4\<close> and both middle rates \<open>1/2\<close>, effective wealth 60 pays the rate 1/4 and
  effective wealth 30 the rate 1/2 (maximum wealth 100, boundaries at 25 and 50).
\<close>

theorem fee_monotone_counterexample:
  "(0::real) \<le> 1 / 4
   \<and> (60::real) > 30
   \<and> \<not> (8 * three_segment_fee_rate 60 100 (1 / 4) (1 / 2) 0 (1 / 2) (1 / 2) (1 / 4)
          \<ge> 8 * three_segment_fee_rate 30 100 (1 / 4) (1 / 2) 0 (1 / 2) (1 / 2) (1 / 4))"
  by (simp add: three_segment_fee_rate_def)

text \<open>
  Claim C5, amended. For a non-negative amount and \<open>wB < wA\<close>, the fee at \<open>wA\<close> is at least
  the fee at \<open>wB\<close>: for the sigmoid curve with \<open>r_min_bps \<le> r_max_bps\<close> (fee
  \<open>amount * rate / 10000\<close>, also truncated by \<open>int\<close>), for the linear curve with
  \<open>r_min \<le> r_max\<close> (fee \<open>int(amount * rate)\<close>), and for the three-segment curve when its
  four rates are ordered \<open>r_poor \<le> r_mid_start \<le> r_mid_end \<le> r_rich\<close>.
\<close>

theorem fee_monotone:
  assumes "wB < wA" and "0 \<le> amount"
  shows "(r_min_bps cfg \<le> r_max_bps cfg \<longrightarrow>
            amount * rate_bps cfg wB / 10000 \<le> amount * rate_bps cfg wA / 10000
          \<and> py_int (amount * rate_bps cfg wB / 10000) \<le> py_int (amount * rate_bps cfg wA / 10000))
       \<and> (r_min \<le> r_max \<longrightarrow>
            py_int (amount * compute_fee_rate wB max_wealth r_min r_max)
              \<le> py_int (amount * compute_fee_rate wA max_wealth r_min r_max))
       \<and> (r_poor \<le> r_mid_start \<and> r_mid_start \<le> r_mid_end \<and> r_mid_end \<le> r_rich \<longrightarrow>
            amount * three_segment_fee_rate wB max_wealth w1_frac w2_frac r_poor r_mid_start r_mid_end r_rich
              \<le> amount * three_segment_fee_rate wA max_wealth w1_frac w2_frac r_poor r_mid_start r_mid_end r_rich)"
proof (intro conjI impI)
  assume "r_min_bps cfg \<le> r_max_bps cfg"
  then have "rate_bps cfg wB \<le> rate_bps cfg wA"
    using assms(1) by (intro rate_bps_mono) simp_all
  then have "amount * rate_bps cfg wB \<le> amount * rate_bps cfg wA"
    using assms(2) by (rule mult_left_mono)
  then show a: "amount * rate_bps cfg wB / 10000 \<le> amount * rate_bps cfg wA / 10000"
    by (simp add: divide_right_mono)
  show "py_int (amount * rate_bps cfg wB / 10000) \<le> py_int (amount * rate_bps cfg wA / 10000)"
    using a by (rule py_int_mono)
next
  assume "r_min \<le> r_max"
  then have "compute_fee_rate wB max_wealth r_min r_max \<le> compute_fee_rate wA max_wealth r_min r_max"
    using assms(1) by (intro compute_fee_rate_mono) simp_all
  then have "amount * compute_fee_rate wB max_wealth r_min r_max
           \<le> amount * compute_fee_rate wA max_wealth r_min r_max"
    using assms(2) by (rule mult_left_mono)
  then show "py_int (amount * compute_fee_rate wB max_wealth r_min r_max)
           \<le> py_int (amount * compute_fee_rate wA max_wealth r_min r_max)"
    by (rule py_int_mono)
next
  assume "r_poor \<le> r_mid_start \<and> r_mid_start \<le> r_mid_end \<and> r_mid_end \<le> r_rich"
  then have "three_segment_fee_rate wB max_wealth w1_frac w2_frac r_poor r_mid_start r_mid_end r_rich
           \<le> three_segment_fee_rate wA max_wealth w1_frac w2_frac r_poor r_mid_start r_mid_end r_rich"
    using assms(1) by (intro three_segment_fee_rate_mono) simp_all
  then show "amount * three_segment_fee_rate wB max_wealth w1_frac w2_frac r_poor r_mid_start r_mid_end r_rich
           \<le> amount * three_segment_fee_rate wA max_wealth w1_frac w2_frac r_poor r_mid_start r_mid_end r_rich"
    using assms(2) by (rule mult_left_mono)
qed

text \<open>The amended C5 at wealth 1000 and 2000, amount 8.\<close>

theorem fee_monotone_witness:
  "(1000::real) < 2000 \<and> (0::real) \<le> 8
   \<and> r_min_bps sigmoid_cfg \<le> r_max_bps sigmoid_cfg
   \<and> (1 / 100 :: real) \<le> 15 / 100
   \<and> (1 / 100 :: real) \<le> 2 / 100 \<and> (2 / 100 :: real) \<le> 12 / 100 \<and> (12 / 100 :: real) \<le> 15 / 100
   \<and> 8 * rate_bps sigmoid_cfg 1000 / 10000 \<le> 8 * rate_bps sigmoid_cfg 2000 / 10000
   \<and> py_int (8 * compute_fee_rate 1000 10000 (1 / 100) (15 / 100))
        \<le> py_int (8 * compute_fee_rate 2000 10000 (1 / 100) (15 / 100))
   \<and> 8 * three_segment_fee_rate 1000 10000 (1 / 10) (1 / 2) (1 / 100) (2 / 100) (12 / 100) (15 / 100)
        \<le> 8 * three_segment_fee_rate 2000 10000 (1 / 10) (1 / 2) (1 / 100) (2 / 100) (12 / 100) (15 / 100)"
  using fee_monotone [where wB = 1000 and wA = 2000 and amount = 8 and cfg = sigmoid_cfg
      and r_min = "1 / 100" and r_max = "15 / 100" and max_wealth = 10000
      and r_poor = "1 / 100" and r_mid_start = "2 / 100" and r_mid_end = "12 / 100"
      and r_rich = "15 / 100" and ?w1_frac = "1 / 10" and ?w2_frac = "1 / 2"]
  by (simp add: sigmoid_cfg_def)

section \<open>Failed transfers change nothing\<close>













section \<open>Conservation of value\<close>






section \<open>Conservation in the UTXO model\<close>










































section \<open>Conservation in the ten-year model\<close>





section \<open>The conservation claim\<close>




end
